theory Spec2Isabelle
  imports Complex_Main "HOL-Library.Sublist"
begin

section \<open>Health checker (scripts/health\_check.py)\<close>

text \<open>
  A shallow embedding of the probe (\<open>HealthChecker.check_service_async\<close>), the fan-out
  (\<open>HealthChecker.run_health_checks_async\<close>) and the aggregation
  (\<open>HealthChecker.generate_report\<close>) of \<^verbatim>\<open>scripts/health_check.py\<close>.

  What the script takes from its surroundings is an explicit argument of the model:
  the readings of \<^verbatim>\<open>time.time()\<close>, the string of \<^verbatim>\<open>datetime.now().isoformat()\<close>,
  what the HTTP request does (a response, a timeout, an exception), what
  \<^verbatim>\<open>response.json()\<close> and \<^verbatim>\<open>response.text()\<close> return, and the order in which the
  concurrent probes complete.

  Python floats are modelled by \<^typ>\<open>real\<close>: the representation error of a float is not
  modelled, the test \<^verbatim>\<open>x == 0.0\<close> is exact in both. A Python \<open>str\<close> is modelled by the
  \<^typ>\<open>string\<close> of the bytes of its UTF-8 encoding; a search for an ASCII text gives the
  same answer on the characters and on the bytes, since no byte of a character beyond
  ASCII is an ASCII byte.
\<close>

subsection \<open>Python values and strings\<close>

text \<open>
  The values \<^verbatim>\<open>response.json()\<close> can return. A dictionary is an association list looked up
  with \<^const>\<open>map_of\<close>.
\<close>

datatype pyval =
    PyNone
  | PyBool bool
  | PyInt int
  | PyFloat real
  | PyStr string
  | PyList "pyval list"
  | PyDict "(string \<times> pyval) list"

text \<open>\<^verbatim>\<open>sub in s\<close> on strings: \<open>sub\<close> occurs in \<open>s\<close> as a contiguous block.\<close>

fun str_in :: "string \<Rightarrow> string \<Rightarrow> bool" where
  "str_in sub [] = (sub = [])"
| "str_in sub (c # cs) = (prefix sub (c # cs) \<or> str_in sub cs)"

text \<open>The lower case of one ASCII character: the letters \<open>A\<close> to \<open>Z\<close> (65 to 90) move
  up by 32.\<close>

definition lower_char :: "char \<Rightarrow> char" where
  "lower_char c =
     (let n = (of_char c :: nat) in if 65 \<le> n \<and> n \<le> 90 then char_of (n + 32) else c)"

text \<open>
  \<^verbatim>\<open>s.lower()\<close>, on the UTF-8 bytes. Besides the letters \<open>A\<close> to \<open>Z\<close>, two characters
  have ASCII letters in their lower case: the Kelvin sign U+212A (bytes E2 84 AA) becomes
  \<open>k\<close>, and the capital I with a dot U+0130 (bytes C4 B0) becomes \<open>i\<close> followed by the
  combining dot U+0307 (bytes CC 87). Every other character beyond ASCII has a lower case
  without ASCII characters; its bytes are kept here, so that \<open>lower\<close> gives the ASCII
  characters of \<^verbatim>\<open>s.lower()\<close>, in their places, and a byte beyond ASCII in the place of
  every other character.
\<close>

fun lower :: "string \<Rightarrow> string" where
  "lower (a # b # c # cs) =
     (if a = CHR 0xE2 \<and> b = CHR 0x84 \<and> c = CHR 0xAA then CHR ''k'' # lower cs
      else if a = CHR 0xC4 \<and> b = CHR 0xB0 then CHR ''i'' # CHR 0xCC # CHR 0x87 # lower (c # cs)
      else lower_char a # lower (b # c # cs))"
| "lower [a, b] =
     (if a = CHR 0xC4 \<and> b = CHR 0xB0 then [CHR ''i'', CHR 0xCC, CHR 0x87]
      else [lower_char a, lower_char b])"
| "lower [a] = [lower_char a]"
| "lower [] = []"

declare lower.simps [simp del]

text \<open>\<^verbatim>\<open>str(n)\<close> of an integer, as the f-string \<^verbatim>\<open>f"HTTP {response.status}"\<close> formats it.\<close>

definition digit_char :: "nat \<Rightarrow> char" where
  "digit_char d = char_of (48 + d)"

fun str_nat :: "nat \<Rightarrow> string" where
  "str_nat n = (if n < 10 then [digit_char n] else str_nat (n div 10) @ [digit_char (n mod 10)])"

declare str_nat.simps [simp del]

definition str_int :: "int \<Rightarrow> string" where
  "str_int i = (if i < 0 then CHR ''-'' # str_nat (nat (- i)) else str_nat (nat i))"

text \<open>
  The integer that a decimal numeral denotes, to say what the text of a status code is:
  digits without a leading zero (the numeral \<open>0\<close> apart), after a minus sign for a
  negative integer. Any other text denotes no integer.
\<close>

definition digit_val :: "char \<Rightarrow> nat option" where
  "digit_val c =
     (let n = (of_char c :: nat) in if 48 \<le> n \<and> n \<le> 57 then Some (n - 48) else None)"

fun digits_val :: "nat \<Rightarrow> string \<Rightarrow> nat option" where
  "digits_val acc [] = Some acc"
| "digits_val acc (c # cs) =
     (case digit_val c of None \<Rightarrow> None | Some d \<Rightarrow> digits_val (10 * acc + d) cs)"

definition nat_of_str :: "string \<Rightarrow> nat option" where
  "nat_of_str s =
     (if s = [] \<or> (hd s = CHR ''0'' \<and> tl s \<noteq> []) then None else digits_val 0 s)"

definition int_of_str :: "string \<Rightarrow> int option" where
  "int_of_str s =
     (if s \<noteq> [] \<and> hd s = CHR ''-'' then
        (case nat_of_str (tl s) of
           Some n \<Rightarrow> if n = 0 then None else Some (- int n)
         | None \<Rightarrow> None)
      else map_option int (nat_of_str s))"

text \<open>
  \<^verbatim>\<open>round(x, ndigits)\<close> on a float: to the nearest multiple of \<open>10 ^ -ndigits\<close>, a tie
  going to the even neighbour.
\<close>

definition round_half_even :: "real \<Rightarrow> int" where
  "round_half_even x =
     (let f = \<lfloor>x\<rfloor>; d = x - of_int f in
      if d < 1 / 2 then f
      else if 1 / 2 < d then f + 1
      else if even f then f else f + 1)"

definition py_round :: "real \<Rightarrow> nat \<Rightarrow> real" where
  "py_round x ndigits = of_int (round_half_even (x * 10 ^ ndigits)) / 10 ^ ndigits"

subsection \<open>Data model\<close>

text \<open>The dataclass \<open>ServiceCheck\<close>. Its \<open>status\<close> is annotated \<open>str\<close>, and holds whatever
  the probe assigns: a string literal, or the value of a JSON field.\<close>

record ServiceCheck =
  name :: string
  url :: string
  status :: pyval
  response_time :: "real option"
  error_message :: "string option"
  timestamp :: string
  metadata :: "string \<rightharpoonup> string"

text \<open>\<open>ServiceCheck.__post_init__\<close>; \<open>now\<close> is \<^verbatim>\<open>datetime.now().isoformat()\<close>. The
  metadata default does not arise: the probe always passes a dictionary.\<close>

definition post_init :: "string \<Rightarrow> ServiceCheck \<Rightarrow> ServiceCheck" where
  "post_init now c = (if timestamp c = [] then c\<lparr>timestamp := now\<rparr> else c)"

text \<open>The dataclass \<open>HealthReport\<close>.\<close>

record HealthReport =
  report_timestamp :: string
  overall_status :: string
  total_services :: int
  healthy_services :: int
  unhealthy_services :: int
  unknown_services :: int
  checks :: "ServiceCheck list"
  duration :: real

text \<open>The fields of \<open>HealthChecker\<close> set by \<open>__init__\<close>. The \<open>requests\<close> session built by
  \<open>_create_session\<close> (with its retry strategy) is used by \<open>check_service_sync\<close> only.\<close>

record HealthChecker =
  timeout :: int
  max_retries :: int

text \<open>A service is a \<open>Dict[str, str]\<close>.\<close>

type_synonym service = "string \<rightharpoonup> string"

datatype error = KeyError string

text \<open>\<^verbatim>\<open>service[key]\<close>.\<close>

definition getitem :: "service \<Rightarrow> string \<Rightarrow> error + string" where
  "getitem service key = (case service key of None \<Rightarrow> Inl (KeyError key) | Some v \<Rightarrow> Inr v)"

text \<open>A service with the three keys the probe reads.\<close>

definition is_target :: "service \<Rightarrow> bool" where
  "is_target service \<longleftrightarrow>
     service ''name'' \<noteq> None \<and> service ''url'' \<noteq> None \<and> service ''type'' \<noteq> None"

definition mk_service :: "string \<Rightarrow> string \<Rightarrow> string \<Rightarrow> service" where
  "mk_service n u t = [''name'' \<mapsto> n, ''url'' \<mapsto> u, ''type'' \<mapsto> t]"

text \<open>\<open>HealthChecker.get_services_to_check\<close>.\<close>

definition get_services_to_check :: "service list" where
  "get_services_to_check =
    [ mk_service ''LiteLLM Proxy'' ''http://localhost:4000/health/liveliness'' ''api'',
      mk_service ''vLLM Qwen2.5-14B'' ''http://localhost:9998/health'' ''model'',
      mk_service ''vLLM Qwen3-30B'' ''http://localhost:9999/health'' ''model'',
      mk_service ''Xinference'' ''http://localhost:9900/health'' ''model'',
      mk_service ''RAGFlow'' ''http://localhost:9380/'' ''web'',
      mk_service ''Prometheus'' ''http://localhost:9090/-/healthy'' ''monitoring'',
      mk_service ''PostgreSQL'' ''http://localhost:5432/health'' ''database'',
      mk_service ''MySQL'' ''http://localhost:3306/health'' ''database'',
      mk_service ''Redis'' ''http://localhost:6379/health'' ''cache'',
      mk_service ''Elasticsearch'' ''http://localhost:1200/_cluster/health'' ''search'',
      mk_service ''MinIO'' ''http://localhost:9000/minio/health/live'' ''storage'' ]"

subsection \<open>The surroundings of one probe\<close>

text \<open>
  An \<open>aiohttp\<close> response as the probe reads it. \<open>resp_status\<close> is \<open>response.status\<close>.
  \<open>resp_text\<close> is what \<open>response.text()\<close> does: the text of the body, or \<open>None\<close> when
  the call raises (the read of the body times out or the connection breaks, or the bytes
  do not decode). \<open>resp_json_type\<close> tells whether the content type of the response is
  one that \<open>response.json()\<close> accepts (a JSON type such as \<open>application/json\<close>), and
  \<open>resp_loads\<close> is what
  the call makes of the body once the type is accepted: the parsed value (Python's
  \<open>None\<close>, here \<open>PyNone\<close>, for an empty body), or \<open>None\<close> when the body cannot be read or
  is not JSON.
\<close>

record response =
  resp_status :: int
  resp_json_type :: bool
  resp_loads :: "pyval option"
  resp_text :: "string option"

text \<open>
  \<open>response.json()\<close> of \<open>aiohttp\<close> (library), from its documentation: the call raises
  \<open>ContentTypeError\<close> when the content type of the response is not a JSON type, and
  otherwise returns the body parsed as JSON. \<open>None\<close>: the call raises.
\<close>

definition resp_json :: "response \<Rightarrow> pyval option" where
  "resp_json r = (if resp_json_type r then resp_loads r else None)"

text \<open>
  What the \<open>try\<close> block of the probe observes for one GET request: it runs to its end on a
  response, or \<open>asyncio.TimeoutError\<close> is raised, or another \<open>Exception\<close> \<open>e\<close> is raised
  (carried here as \<open>str(e)\<close>).
\<close>

datatype outcome =
    Response response
  | TimeoutError
  | Exception string

text \<open>
  \<open>clock_start\<close> is \<^verbatim>\<open>time.time()\<close> before the \<open>try\<close>, \<open>clock_end\<close> the reading taken in
  the branch that ends the probe, \<open>created\<close> the \<^verbatim>\<open>datetime.now().isoformat()\<close> of
  \<open>__post_init__\<close>, and \<open>request n\<close> what the \<open>n\<close>-th GET request to the service's URL
  does (the first is request 0).
\<close>

record probe_env =
  clock_start :: real
  clock_end :: real
  created :: string
  request :: "nat \<Rightarrow> outcome"

subsection \<open>The probe\<close>

text \<open>\<^verbatim>\<open>data.get("status", "healthy")\<close> inside \<open>try\<close> / bare \<open>except\<close>: whatever
  \<open>response.json()\<close> raises is swallowed and the status is kept; a value that is not a
  dictionary has no \<open>get\<close>, and the \<open>AttributeError\<close> is swallowed as well.\<close>

definition json_status :: "pyval option \<Rightarrow> pyval" where
  "json_status j =
     (case j of
        Some (PyDict kv) \<Rightarrow>
          (case map_of kv ''status'' of Some v \<Rightarrow> v | None \<Rightarrow> PyStr ''healthy'')
      | _ \<Rightarrow> PyStr ''healthy'')"

text \<open>The content check of a \<open>model\<close> service, inside \<open>try\<close> / bare \<open>except\<close>: whatever
  \<open>response.text()\<close> raises is swallowed and the status is kept.\<close>

definition text_status :: "string option \<Rightarrow> pyval" where
  "text_status t =
     (case t of
        Some txt \<Rightarrow>
          (if \<not> str_in ''healthy'' (lower txt) \<and> \<not> str_in ''ok'' (lower txt)
           then PyStr ''degraded'' else PyStr ''healthy'')
      | None \<Rightarrow> PyStr ''healthy'')"

text \<open>The body of the \<open>try\<close> statement and its two handlers: the status and the error
  message they leave.\<close>

definition classify :: "string \<Rightarrow> string \<Rightarrow> outcome \<Rightarrow> pyval \<times> string option" where
  "classify url' service_type out =
     (case out of
        Response r \<Rightarrow>
          (if resp_status r = 200 then
             (if service_type = ''api'' \<and> str_in ''health'' url' then
                (json_status (resp_json r), None)
              else if service_type = ''model'' then
                (text_status (resp_text r), None)
              else (PyStr ''healthy'', None))
           else (PyStr ''unhealthy'', Some (''HTTP '' @ str_int (resp_status r))))
      | TimeoutError \<Rightarrow> (PyStr ''unhealthy'', Some ''Timeout'')
      | Exception msg \<Rightarrow> (PyStr ''unhealthy'', Some msg))"

text \<open>
  \<open>HealthChecker.check_service_async\<close>. The three subscripts come before the \<open>try\<close>, so
  a missing key raises \<open>KeyError\<close> out of the probe. One GET request is sent
  (\<open>request env 0\<close>); \<open>self\<close> is read for the timeout of the session only.
\<close>

definition check_service_async ::
    "HealthChecker \<Rightarrow> service \<Rightarrow> probe_env \<Rightarrow> error + ServiceCheck" where
  "check_service_async self service env =
     (case getitem service ''name'' of
        Inl e \<Rightarrow> Inl e
      | Inr name' \<Rightarrow>
     (case getitem service ''url'' of
        Inl e \<Rightarrow> Inl e
      | Inr url' \<Rightarrow>
     (case getitem service ''type'' of
        Inl e \<Rightarrow> Inl e
      | Inr service_type \<Rightarrow>
     (let start_time = clock_start env;
          (status', error_message') = classify url' service_type (request env 0);
          response_time' = clock_end env - start_time
      in Inr (post_init (created env)
           \<lparr> name = name',
             url = url',
             status = status',
             response_time =
               (if response_time' \<noteq> 0 then Some (py_round (response_time' * 1000) 2)
                else None),
             error_message = error_message',
             timestamp = [],
             metadata = [''type'' \<mapsto> service_type] \<rparr>)))))"

subsection \<open>Fan-out and join\<close>

text \<open>
  \<^verbatim>\<open>asyncio.gather(*tasks)\<close> (standard library), from its documentation: the tasks run
  concurrently; each result is kept with its own task; the first exception raised by a
  task is raised by \<open>gather\<close>; when all tasks are done the results are returned in the
  order of the tasks. \<open>order\<close> lists the indices of the tasks in the order of their
  completion. The value \<open>None\<close> of \<open>gather\<close> means that a task has not completed and
  \<open>gather\<close> has not returned.
\<close>

fun gather_run :: "(error + 'a) list \<Rightarrow> nat list \<Rightarrow> 'a option list \<Rightarrow> error + 'a option list" where
  "gather_run tasks [] slots = Inr slots"
| "gather_run tasks (i # order) slots =
     (if i < length tasks then
        (case tasks ! i of
           Inl e \<Rightarrow> Inl e
         | Inr r \<Rightarrow> gather_run tasks order (slots[i := Some r]))
      else gather_run tasks order slots)"

definition gather :: "(error + 'a) list \<Rightarrow> nat list \<Rightarrow> (error + 'a list) option" where
  "gather tasks order =
     (case gather_run tasks order (replicate (length tasks) None) of
        Inl e \<Rightarrow> Some (Inl e)
      | Inr slots \<Rightarrow> map_option Inr (those slots))"

text \<open>\<open>HealthChecker.run_health_checks_async\<close>; \<open>envs i\<close> is the surroundings of the
  probe of \<open>services[i]\<close>. The probes share no state, so what a probe meets does not
  depend on the order of completion.\<close>

definition run_health_checks_async ::
    "HealthChecker \<Rightarrow> service list \<Rightarrow> (nat \<Rightarrow> probe_env) \<Rightarrow> nat list
       \<Rightarrow> (error + ServiceCheck list) option" where
  "run_health_checks_async self services envs order =
     gather (map (\<lambda>i. check_service_async self (services ! i) (envs i)) [0..<length services])
       order"

subsection \<open>Aggregation\<close>

text \<open>\<^verbatim>\<open>sum(1 for check in checks if check.status == s)\<close>.\<close>

definition count_status :: "string \<Rightarrow> ServiceCheck list \<Rightarrow> int" where
  "count_status s cs = sum_list [1. check \<leftarrow> cs, status check = PyStr s]"

text \<open>\<open>HealthChecker.generate_report\<close>; \<open>now\<close> is \<^verbatim>\<open>datetime.now().isoformat()\<close>.\<close>

definition generate_report :: "string \<Rightarrow> ServiceCheck list \<Rightarrow> real \<Rightarrow> HealthReport" where
  "generate_report now cs dur =
     (let healthy_count = count_status ''healthy'' cs;
          unhealthy_count = count_status ''unhealthy'' cs;
          unknown_count = count_status ''unknown'' cs;
          overall =
            (if unhealthy_count > 0 then ''unhealthy''
             else if unknown_count > 0 then ''degraded''
             else ''healthy'')
      in \<lparr> report_timestamp = now,
           overall_status = overall,
           total_services = int (length cs),
           healthy_services = healthy_count,
           unhealthy_services = unhealthy_count,
           unknown_services = unknown_count,
           checks = cs,
           duration = py_round dur 2 \<rparr>)"

text \<open>
  The part of \<open>main\<close> between the start of the checks and the report: the probes are
  gathered, the duration is the difference of two clock readings, the report is generated.
  An exception of a probe leaves \<open>main\<close> (the handler there is for \<open>ImportError\<close>).
\<close>

definition main_report ::
    "HealthChecker \<Rightarrow> service list \<Rightarrow> (nat \<Rightarrow> probe_env) \<Rightarrow> nat list
       \<Rightarrow> string \<Rightarrow> real \<Rightarrow> real \<Rightarrow> (error + HealthReport) option" where
  "main_report checker services envs order now start_time end_time =
     map_option (map_sum id (\<lambda>cs. generate_report now cs (end_time - start_time)))
       (run_health_checks_async checker services envs order)"

text \<open>
  The one path of the probe on which a status outside \<open>healthy\<close>, \<open>degraded\<close>,
  \<open>unhealthy\<close> can arise: an \<open>api\<close> service with \<open>health\<close> in its URL answers 200 and
  \<open>response.json()\<close> is a dictionary whose \<open>status\<close> is the string \<open>unknown\<close>.
\<close>

definition reports_unknown :: "service \<Rightarrow> probe_env \<Rightarrow> bool" where
  "reports_unknown service env \<longleftrightarrow>
     service ''type'' = Some ''api'' \<and>
     (case service ''url'' of Some u \<Rightarrow> str_in ''health'' u | None \<Rightarrow> False) \<and>
     (case request env 0 of
        Response r \<Rightarrow>
          resp_status r = 200 \<and>
          (case resp_json r of
             Some (PyDict kv) \<Rightarrow> map_of kv ''status'' = Some (PyStr ''unknown'')
           | _ \<Rightarrow> False)
      | _ \<Rightarrow> False)"

subsection \<open>Concrete services and runs\<close>

text \<open>\<open>HealthChecker()\<close> with the defaults of \<open>__init__\<close>.\<close>

definition default_checker :: HealthChecker where
  "default_checker = \<lparr> timeout = 10, max_retries = 3 \<rparr>"

text \<open>Three entries of the registry.\<close>

definition litellm :: service where
  "litellm = mk_service ''LiteLLM Proxy'' ''http://localhost:4000/health/liveliness'' ''api''"

definition vllm_qwen :: service where
  "vllm_qwen = mk_service ''vLLM Qwen2.5-14B'' ''http://localhost:9998/health'' ''model''"

definition prometheus :: service where
  "prometheus = mk_service ''Prometheus'' ''http://localhost:9090/-/healthy'' ''monitoring''"

text \<open>A probe that takes a quarter of a second and whose every request does \<open>out\<close>.\<close>

definition env_of :: "outcome \<Rightarrow> probe_env" where
  "env_of out =
     \<lparr> clock_start = 100, clock_end = 100.25, created = ''2025-01-01T00:00:00'',
       request = (\<lambda>_. out) \<rparr>"

text \<open>A 200 response of type \<open>text/plain\<close> with the given body, which is not JSON.\<close>

definition text_response :: "string \<Rightarrow> response" where
  "text_response body =
     \<lparr> resp_status = 200, resp_json_type = False, resp_loads = None, resp_text = Some body \<rparr>"

definition ok_text :: "string \<Rightarrow> outcome" where
  "ok_text body = Response (text_response body)"

text \<open>A 200 response of type \<open>application/json\<close> whose body is the JSON object with the
  given fields.\<close>

definition json_response :: "(string \<times> pyval) list \<Rightarrow> string \<Rightarrow> response" where
  "json_response kv body =
     \<lparr> resp_status = 200, resp_json_type = True, resp_loads = Some (PyDict kv),
       resp_text = Some body \<rparr>"

definition ok_json :: "(string \<times> pyval) list \<Rightarrow> string \<Rightarrow> outcome" where
  "ok_json kv body = Response (json_response kv body)"

text \<open>A 200 response of type \<open>text/plain\<close> whose body is a JSON object with the status
  \<open>unhealthy\<close>.\<close>

definition unhealthy_as_text :: response where
  \<open>unhealthy_as_text =
     \<lparr> resp_status = 200, resp_json_type = False,
       resp_loads = Some (PyDict [(''status'', PyStr ''unhealthy'')]),
       resp_text = Some ''{"status": "unhealthy"}'' \<rparr>\<close>

text \<open>A 200 response of type \<open>application/json\<close> whose body is the JSON array of two
  numbers.\<close>

definition json_array :: response where
  "json_array =
     \<lparr> resp_status = 200, resp_json_type = True, resp_loads = Some (PyList [PyInt 1, PyInt 2]),
       resp_text = Some ''[1, 2]'' \<rparr>"

text \<open>A 200 response whose headers arrive and whose body does not: the read times out,
  so that \<open>response.json()\<close> and \<open>response.text()\<close> raise.\<close>

definition unreadable_200 :: response where
  "unreadable_200 =
     \<lparr> resp_status = 200, resp_json_type = True, resp_loads = None, resp_text = None \<rparr>"

text \<open>A response with another status code and an empty body.\<close>

definition error_response :: "int \<Rightarrow> response" where
  "error_response code =
     \<lparr> resp_status = code, resp_json_type = False, resp_loads = None, resp_text = Some [] \<rparr>"

definition http_error :: "int \<Rightarrow> outcome" where
  "http_error code = Response (error_response code)"

text \<open>The body \<open>o\<close> followed by the Kelvin sign U+212A.\<close>

definition kelvin_body :: string where
  "kelvin_body = [CHR ''o'', CHR 0xE2, CHR 0x84, CHR 0xAA]"

text \<open>A server that answers 500 to the first request and 200 to every later one.\<close>

definition env_500_then_ok :: probe_env where
  "env_500_then_ok =
     \<lparr> clock_start = 100, clock_end = 100.25, created = ''2025-01-01T00:00:00'',
       request = (\<lambda>n. if n = 0 then http_error 500 else ok_text ''OK'') \<rparr>"

text \<open>A connection refused at once, the two clock readings being equal.\<close>

definition env_zero_elapsed :: probe_env where
  "env_zero_elapsed =
     \<lparr> clock_start = 100, clock_end = 100, created = ''2025-01-01T00:00:00'',
       request = (\<lambda>_. Exception ''Cannot connect to host localhost:9090'') \<rparr>"

text \<open>A result with the given status, for the aggregation.\<close>

definition check_with :: "string \<Rightarrow> ServiceCheck" where
  "check_with s =
     \<lparr> name = ''svc'', url = ''http://localhost/'', status = PyStr s, response_time = None,
       error_message = None, timestamp = ''2025-01-01T00:00:00'', metadata = Map.empty \<rparr>"

text \<open>An \<open>api\<close> service answers 200 with a JSON object whose \<open>status\<close> is \<open>unknown\<close>.\<close>

definition env_unknown :: probe_env where
  \<open>env_unknown = env_of (ok_json [(''status'', PyStr ''unknown'')] ''{"status": "unknown"}'')\<close>

text \<open>The surroundings of a run of two probes: the first is answered by a JSON object
  with the status \<open>healthy\<close>, the second by the text \<open>OK\<close>.\<close>

definition envs_two :: "nat \<Rightarrow> probe_env" where
  \<open>envs_two i =
     (if i = 0 then env_of (ok_json [(''status'', PyStr ''healthy'')] ''{"status": "healthy"}'')
      else env_of (ok_text ''OK''))\<close>

section \<open>Properties\<close>

subsection \<open>Strings, counting and the join\<close>

lemma str_in_iff_sublist: "str_in sub s \<longleftrightarrow> sublist sub s"
proof (induction s)
  case Nil
  then show ?case by simp
next
  case (Cons c cs)
  then show ?case by (cases sub) (simp_all add: sublist_Cons_right)
qed

lemma str_in_iff: "str_in sub s \<longleftrightarrow> (\<exists>p q. s = p @ sub @ q)"
  by (simp add: str_in_iff_sublist sublist_def)

lemma str_in_unhealthy: "str_in ''unhealthy'' s \<Longrightarrow> str_in ''healthy'' s"
proof -
  assume "str_in ''unhealthy'' s"
  then obtain p q where "s = p @ ''unhealthy'' @ q" by (auto simp: str_in_iff)
  then have "s = (p @ ''un'') @ ''healthy'' @ q" by simp
  then show ?thesis unfolding str_in_iff by blast
qed

lemma digit_val_digit_char: "d < 10 \<Longrightarrow> digit_val (digit_char d) = Some d"
  by (simp add: digit_val_def digit_char_def)

lemma digits_val_snoc:
  "digits_val acc (xs @ [c]) =
     (case digits_val acc xs of
        None \<Rightarrow> None
      | Some m \<Rightarrow> (case digit_val c of None \<Rightarrow> None | Some d \<Rightarrow> Some (10 * m + d)))"
  by (induction xs arbitrary: acc) (simp_all split: option.splits)

lemma digits_val_str_nat: "digits_val 0 (str_nat n) = Some n"
proof (induction n rule: str_nat.induct)
  case (1 n)
  show ?case
  proof (cases "n < 10")
    case True
    then show ?thesis
      by (subst str_nat.simps) (simp add: digit_val_digit_char)
  next
    case False
    with 1 have "digits_val 0 (str_nat (n div 10)) = Some (n div 10)" by simp
    with False show ?thesis
      by (subst str_nat.simps) (simp add: digits_val_snoc digit_val_digit_char)
  qed
qed

lemma str_nat_not_Nil: "str_nat n \<noteq> []"
  by (subst str_nat.simps) simp

lemma hd_str_nat: "\<exists>d<10. hd (str_nat n) = digit_char d \<and> (d = 0 \<longrightarrow> n < 10)"
proof (induction n rule: str_nat.induct)
  case (1 n)
  show ?case
  proof (cases "n < 10")
    case True
    then show ?thesis
      by (subst str_nat.simps) auto
  next
    case False
    with 1 obtain d where d: "d < 10" "hd (str_nat (n div 10)) = digit_char d"
      "d = 0 \<longrightarrow> n div 10 < 10"
      by auto
    have "d \<noteq> 0"
    proof
      assume "d = 0"
      with d have small: "n div 10 < 10" and "hd (str_nat (n div 10)) = digit_char 0" by simp_all
      then have "digit_char (n div 10) = digit_char 0"
        by (subst (asm) str_nat.simps) simp
      then have "digit_val (digit_char (n div 10)) = digit_val (digit_char 0)" by simp
      with small have "n div 10 = 0" by (simp add: digit_val_digit_char)
      with False show False by simp
    qed
    moreover have "hd (str_nat n) = digit_char d"
      using False d(2) by (subst str_nat.simps) (simp add: str_nat_not_Nil)
    ultimately show ?thesis using d(1) by auto
  qed
qed

lemma nat_of_str_str_nat: "nat_of_str (str_nat n) = Some n"
proof -
  from hd_str_nat [of n] obtain d where
    d: "d < 10" "hd (str_nat n) = digit_char d" "d = 0 \<longrightarrow> n < 10"
    by blast
  have "tl (str_nat n) = []" if "hd (str_nat n) = CHR ''0''"
  proof -
    from that d(2) have "digit_val (digit_char d) = digit_val (CHR ''0'')" by simp
    with d(1) have "d = 0" by (simp add: digit_val_digit_char) (simp add: digit_val_def)
    with d(3) have "n < 10" by simp
    then show ?thesis by (subst str_nat.simps) simp
  qed
  then show ?thesis
    by (auto simp: nat_of_str_def str_nat_not_Nil digits_val_str_nat)
qed

lemma hd_str_nat_not_minus: "hd (str_nat n) \<noteq> CHR ''-''"
proof
  assume m: "hd (str_nat n) = CHR ''-''"
  from hd_str_nat [of n] obtain d where d: "d < 10" "hd (str_nat n) = digit_char d"
    by blast
  with m have "digit_val (digit_char d) = digit_val (CHR ''-'')" by simp
  with d(1) show False by (simp add: digit_val_digit_char) (simp add: digit_val_def)
qed

lemma int_of_str_str_int: "int_of_str (str_int i) = Some i"
proof (cases "i < 0")
  case True
  then show ?thesis
    by (simp add: int_of_str_def str_int_def nat_of_str_str_nat)
next
  case False
  then show ?thesis
    by (simp add: int_of_str_def str_int_def nat_of_str_str_nat str_nat_not_Nil
        hd_str_nat_not_minus)
qed


lemma digit_char_0: "digit_char 0 = CHR ''0''"
  by code_simp

lemma digit_val_SomeD:
  assumes "digit_val c = Some d"
  shows "c = digit_char d" and "d < 10"
proof -
  from assms have n: "48 \<le> (of_char c :: nat)" "(of_char c :: nat) \<le> 57"
    and d: "d = of_char c - 48"
    by (auto simp: digit_val_def Let_def split: if_splits)
  from n d have "48 + d = (of_char c :: nat)" by simp
  then show "c = digit_char d" by (simp add: digit_char_def)
  from n d show "d < 10" by simp
qed

lemma str_nat_digits_val:
  assumes "digits_val 0 s = Some n" and "s \<noteq> []" and "hd s = CHR ''0'' \<longrightarrow> tl s = []"
  shows "s = str_nat n"
  using assms
proof (induction s arbitrary: n rule: rev_induct)
  case Nil
  then show ?case by simp
next
  case (snoc c xs)
  from snoc.prems(1) obtain m d where
    m: "digits_val 0 xs = Some m" and d: "digit_val c = Some d" and n: "n = 10 * m + d"
    by (auto simp: digits_val_snoc split: option.splits)
  from digit_val_SomeD [OF d] have c: "c = digit_char d" and d10: "d < 10" .
  show ?case
  proof (cases "xs = []")
    case True
    with m n have "n = d" by simp
    with True c d10 show ?thesis by (subst str_nat.simps) simp
  next
    case False
    with snoc.prems(3) have hd: "hd xs \<noteq> CHR ''0''" by auto
    with snoc.IH [OF m False] have xs: "xs = str_nat m" by simp
    have "m \<noteq> 0"
    proof
      assume "m = 0"
      with xs have "xs = [digit_char 0]" by (subst (asm) str_nat.simps) simp
      with hd show False by (simp add: digit_char_0)
    qed
    with n d10 have "\<not> n < 10" "n div 10 = m" "n mod 10 = d" by simp_all
    with xs c show ?thesis by (subst str_nat.simps) simp
  qed
qed

lemma nat_of_str_iff: "nat_of_str s = Some n \<longleftrightarrow> s = str_nat n"
proof
  assume "nat_of_str s = Some n"
  then show "s = str_nat n"
    by (intro str_nat_digits_val) (auto simp: nat_of_str_def split: if_splits)
qed (simp add: nat_of_str_str_nat)

lemma int_of_str_iff: "int_of_str s = Some i \<longleftrightarrow> s = str_int i"
proof
  assume a: "int_of_str s = Some i"
  show "s = str_int i"
  proof (cases "s \<noteq> [] \<and> hd s = CHR ''-''")
    case True
    with a obtain n where n: "nat_of_str (tl s) = Some n" "n \<noteq> 0" "i = - int n"
      by (auto simp: int_of_str_def split: option.splits if_splits)
    from n(1) have "tl s = str_nat n" by (simp add: nat_of_str_iff)
    with True have "s = CHR ''-'' # str_nat n" by (cases s) simp_all
    with n(2,3) show ?thesis by (simp add: str_int_def)
  next
    case False
    with a obtain n where n: "nat_of_str s = Some n" "i = int n"
      by (auto simp: int_of_str_def)
    then show ?thesis by (simp add: nat_of_str_iff str_int_def)
  qed
qed (simp add: int_of_str_str_int)

lemma str_int_examples:
  "str_int 500 = ''500''" "str_int 404 = ''404''" "str_int 0 = ''0''" "str_int (- 7) = ''-7''"
  by code_simp+

lemma lower_ascii_letters:
  "lower ''ABCDEFGHIJKLMNOPQRSTUVWXYZ'' = ''abcdefghijklmnopqrstuvwxyz''"
  "lower ''abcdefghijklmnopqrstuvwxyz'' = ''abcdefghijklmnopqrstuvwxyz''"
  "lower ''0123456789 !#$%&()*+,-./:;<=>?@[]^_{|}~'' = ''0123456789 !#$%&()*+,-./:;<=>?@[]^_{|}~''"
  by code_simp+

lemma lower_kelvin: "lower kelvin_body = ''ok''"
  by code_simp

lemma lower_dotted_I: "lower [CHR ''H'', CHR 0xC4, CHR 0xB0] = [CHR ''h'', CHR ''i'', CHR 0xCC, CHR 0x87]"
  by code_simp

lemma lower_ascii:
  assumes "\<forall>c\<in>set s. (of_char c :: nat) < 128"
  shows "lower s = map lower_char s"
  using assms by (induction s rule: lower.induct) (auto simp: lower.simps)

lemma count_status_length:
  "count_status s cs = int (length (filter (\<lambda>c. status c = PyStr s) cs))"
  unfolding count_status_def by (induction cs) simp_all

lemma count_status_pos: "0 < count_status s cs \<longleftrightarrow> (\<exists>c\<in>set cs. status c = PyStr s)"
  by (simp add: count_status_length filter_empty_conv)

lemma those_map_Some: "those (map Some xs) = Some xs"
  by (induction xs) simp_all

lemma gather_run_ok:
  "\<exists>slots'. gather_run (map Inr rs) order slots = Inr slots' \<and>
     length slots' = length slots \<and>
     (\<forall>j<length slots. slots' ! j =
        (if j \<in> set order \<and> j < length rs then Some (rs ! j) else slots ! j))"
proof (induction order arbitrary: slots)
  case Nil
  then show ?case by simp
next
  case (Cons i order)
  show ?case
  proof (cases "i < length rs")
    case True
    from Cons.IH [of "slots[i := Some (rs ! i)]"] obtain slots' where
      s: "gather_run (map Inr rs) order (slots[i := Some (rs ! i)]) = Inr slots'"
         "length slots' = length slots"
         "\<forall>j<length slots. slots' ! j =
            (if j \<in> set order \<and> j < length rs then Some (rs ! j)
             else (slots[i := Some (rs ! i)]) ! j)"
      by auto
    from True s(1) have "gather_run (map Inr rs) (i # order) slots = Inr slots'"
      by simp
    moreover have "\<forall>j<length slots. slots' ! j =
        (if j \<in> set (i # order) \<and> j < length rs then Some (rs ! j) else slots ! j)"
      using s(3) True by (auto simp: nth_list_update)
    ultimately show ?thesis using s(2) by blast
  next
    case False
    with Cons.IH [of slots] show ?thesis by auto
  qed
qed

lemma gather_all_ok:
  assumes "{..<length rs} \<subseteq> set order"
  shows "gather (map Inr rs) order = Some (Inr rs)"
proof -
  from gather_run_ok [of rs order "replicate (length rs) None"] obtain slots' where
    s: "gather_run (map Inr rs) order (replicate (length rs) None) = Inr slots'"
       "length slots' = length rs"
       "\<forall>j<length rs. slots' ! j =
          (if j \<in> set order \<and> j < length rs then Some (rs ! j) else None)"
    by auto
  have "slots' = map Some rs"
  proof (rule nth_equalityI)
    show "length slots' = length (map Some rs)" using s(2) by simp
  next
    fix j assume "j < length slots'"
    then have j: "j < length rs" using s(2) by simp
    with assms have "j \<in> set order" by auto
    with s(3) j show "slots' ! j = map Some rs ! j" by simp
  qed
  with s(1) show ?thesis by (simp add: gather_def those_map_Some)
qed


lemma check_service_async_target:
  assumes "service ''name'' = Some n" "service ''url'' = Some u" "service ''type'' = Some t"
  shows "check_service_async self service env =
     Inr \<lparr> name = n, url = u,
           status = fst (classify u t (request env 0)),
           response_time =
             (if clock_end env - clock_start env \<noteq> 0
              then Some (py_round ((clock_end env - clock_start env) * 1000) 2) else None),
           error_message = snd (classify u t (request env 0)),
           timestamp = created env,
           metadata = [''type'' \<mapsto> t] \<rparr>"
  using assms
  by (simp add: check_service_async_def getitem_def post_init_def Let_def split: prod.split)

lemma is_targetE:
  assumes "is_target service"
  obtains n u t where "service ''name'' = Some n" "service ''url'' = Some u"
    "service ''type'' = Some t"
  using assms unfolding is_target_def by auto

lemma probe_fields:
  assumes "service ''name'' = Some n" "service ''url'' = Some u" "service ''type'' = Some t"
  shows "\<exists>r. check_service_async self service env = Inr r \<and> name r = n \<and> url r = u \<and>
           status r = fst (classify u t (request env 0)) \<and>
           error_message r = snd (classify u t (request env 0)) \<and>
           response_time r =
             (if clock_end env = clock_start env then None
              else Some (py_round ((clock_end env - clock_start env) * 1000) 2))"
  by (simp add: check_service_async_target [OF assms])

lemma status_unknown_iff:
  assumes "service ''name'' = Some n" "service ''url'' = Some u" "service ''type'' = Some t"
  shows "fst (classify u t (request env 0)) = PyStr ''unknown'' \<longleftrightarrow> reports_unknown service env"
  using assms
  by (auto simp: classify_def reports_unknown_def json_status_def text_status_def
      split: outcome.splits option.splits pyval.splits if_splits)


lemma overall_status_eq:
  "overall_status (generate_report now cs dur) =
     (if \<exists>c\<in>set cs. status c = PyStr ''unhealthy'' then ''unhealthy''
      else if \<exists>c\<in>set cs. status c = PyStr ''unknown'' then ''degraded''
      else ''healthy'')"
  by (simp add: generate_report_def Let_def count_status_pos)

subsection \<open>Aggregation\<close>

text \<open>
  Claim C1. The overall status of the report is \<open>unhealthy\<close> exactly when some result has
  status \<open>unhealthy\<close>; when none has, it is \<open>degraded\<close> exactly when some result has status
  \<open>unknown\<close>; when neither occurs it is \<open>healthy\<close>. In particular results that are all
  \<open>healthy\<close> or \<open>degraded\<close> give the overall status \<open>healthy\<close>.
\<close>

theorem C1_overall_status:
  "(overall_status (generate_report now cs dur) = ''unhealthy'' \<longleftrightarrow>
      (\<exists>c\<in>set cs. status c = PyStr ''unhealthy'')) \<and>
   (\<not> (\<exists>c\<in>set cs. status c = PyStr ''unhealthy'') \<longrightarrow>
      (overall_status (generate_report now cs dur) = ''degraded'' \<longleftrightarrow>
         (\<exists>c\<in>set cs. status c = PyStr ''unknown''))) \<and>
   (\<not> (\<exists>c\<in>set cs. status c = PyStr ''unhealthy'') \<and>
    \<not> (\<exists>c\<in>set cs. status c = PyStr ''unknown'') \<longrightarrow>
      overall_status (generate_report now cs dur) = ''healthy'') \<and>
   ((\<forall>c\<in>set cs. status c = PyStr ''healthy'' \<or> status c = PyStr ''degraded'') \<longrightarrow>
      overall_status (generate_report now cs dur) = ''healthy'')"
proof -
  have "(\<forall>c\<in>set cs. status c = PyStr ''healthy'' \<or> status c = PyStr ''degraded'') \<Longrightarrow>
      \<not> (\<exists>c\<in>set cs. status c = PyStr ''unhealthy'') \<and>
      \<not> (\<exists>c\<in>set cs. status c = PyStr ''unknown'')"
    by auto
  then show ?thesis
    unfolding overall_status_eq by auto
qed

theorem C1_witness:
  "status (check_with ''degraded'') = PyStr ''degraded'' \<and>
   overall_status (generate_report ''2025-01-01T00:00:01''
      [check_with ''healthy'', check_with ''degraded'', check_with ''healthy''] 1) = ''healthy'' \<and>
   overall_status (generate_report ''2025-01-01T00:00:01''
      [check_with ''healthy'', check_with ''unknown'', check_with ''degraded''] 1) = ''degraded'' \<and>
   overall_status (generate_report ''2025-01-01T00:00:01''
      [check_with ''unknown'', check_with ''unhealthy'', check_with ''healthy''] 1) = ''unhealthy''"
  using C1_overall_status [of "''2025-01-01T00:00:01''"
      "[check_with ''healthy'', check_with ''degraded'', check_with ''healthy'']" 1]
    C1_overall_status [of "''2025-01-01T00:00:01''"
      "[check_with ''healthy'', check_with ''unknown'', check_with ''degraded'']" 1]
    C1_overall_status [of "''2025-01-01T00:00:01''"
      "[check_with ''unknown'', check_with ''unhealthy'', check_with ''healthy'']" 1]
  by (simp add: check_with_def)

text \<open>
  Claim C8. The report counts every result in \<open>total_services\<close>; the three counters add up
  to at most that total, and what is missing is the number of results whose status is
  none of \<open>healthy\<close>, \<open>unhealthy\<close>, \<open>unknown\<close>.
\<close>

theorem C8_counts_bounded:
  "total_services (generate_report now cs dur) = int (length cs) \<and>
   healthy_services (generate_report now cs dur) + unhealthy_services (generate_report now cs dur)
     + unknown_services (generate_report now cs dur) \<le> total_services (generate_report now cs dur) \<and>
   total_services (generate_report now cs dur)
     - (healthy_services (generate_report now cs dur)
        + unhealthy_services (generate_report now cs dur)
        + unknown_services (generate_report now cs dur))
     = int (length (filter (\<lambda>c. status c \<noteq> PyStr ''healthy'' \<and> status c \<noteq> PyStr ''unhealthy''
                                  \<and> status c \<noteq> PyStr ''unknown'') cs))"
proof -
  have "count_status ''healthy'' cs + count_status ''unhealthy'' cs + count_status ''unknown'' cs
      + int (length (filter (\<lambda>c. status c \<noteq> PyStr ''healthy'' \<and> status c \<noteq> PyStr ''unhealthy''
                                  \<and> status c \<noteq> PyStr ''unknown'') cs)) = int (length cs)"
    unfolding count_status_length by (induction cs) auto
  then show ?thesis
    by (simp add: generate_report_def Let_def)
qed

subsection \<open>The probe\<close>

lemma litellm_keys:
  "litellm ''name'' = Some ''LiteLLM Proxy''"
  "litellm ''url'' = Some ''http://localhost:4000/health/liveliness''"
  "litellm ''type'' = Some ''api''"
  by (simp_all add: litellm_def mk_service_def)

lemma vllm_qwen_keys:
  "vllm_qwen ''name'' = Some ''vLLM Qwen2.5-14B''"
  "vllm_qwen ''url'' = Some ''http://localhost:9998/health''"
  "vllm_qwen ''type'' = Some ''model''"
  by (simp_all add: vllm_qwen_def mk_service_def)

lemma prometheus_keys:
  "prometheus ''name'' = Some ''Prometheus''"
  "prometheus ''url'' = Some ''http://localhost:9090/-/healthy''"
  "prometheus ''type'' = Some ''monitoring''"
  by (simp_all add: prometheus_def mk_service_def)

lemma fixtures_are_targets: "is_target litellm" "is_target vllm_qwen" "is_target prometheus"
  by (simp_all add: is_target_def litellm_keys vllm_qwen_keys prometheus_keys)

lemma registry_targets: "list_all is_target get_services_to_check"
  by (simp add: get_services_to_check_def is_target_def mk_service_def)

lemma litellm_url_health: "str_in ''health'' ''http://localhost:4000/health/liveliness''"
  by code_simp

lemma body_facts:
  "str_in ''ok'' (lower ''Service OK'')"
  "\<not> str_in ''healthy'' (lower ''I am alive'')"
  "\<not> str_in ''ok'' (lower ''I am alive'')"
  "str_in ''unhealthy'' (lower ''Model UNHEALTHY: out of memory'')"
  "str_in ''ok'' (lower kelvin_body)"
  by code_simp+

lemma fixture_responses:
  "resp_status (text_response body) = 200" "resp_text (text_response body) = Some body"
  "resp_json (text_response body) = None"
  "resp_status (json_response kv body) = 200"
  "resp_json (json_response kv body) = Some (PyDict kv)"
  "resp_status (error_response code) = code"
  "resp_status unreadable_200 = 200" "resp_json unreadable_200 = None"
  "resp_text unreadable_200 = None"
  "resp_status unhealthy_as_text = 200" "resp_json unhealthy_as_text = None"
  "resp_status json_array = 200" "resp_json json_array = Some (PyList [PyInt 1, PyInt 2])"
  by (simp_all add: text_response_def json_response_def error_response_def unreadable_200_def
      unhealthy_as_text_def json_array_def resp_json_def)

text \<open>
  The headers of a 200 arrive for a \<open>model\<close> service and the read of the body times out:
  the probe answers \<open>healthy\<close> and gives no error message.
\<close>

theorem C2_counterexample:
  "resp_text unreadable_200 = None \<and>
   map_sum id status
     (check_service_async default_checker vllm_qwen (env_of (Response unreadable_200))) =
     Inr (PyStr ''healthy'') \<and>
   map_sum id error_message
     (check_service_async default_checker vllm_qwen (env_of (Response unreadable_200))) =
     Inr None"
  by (simp add: check_service_async_target [OF vllm_qwen_keys] env_of_def classify_def
      text_status_def fixture_responses)

text \<open>
  Claim C2, as amended. The probe of a target (a service with the keys \<open>name\<close>, \<open>url\<close> and
  \<open>type\<close>) returns a result whatever the request does, and never raises. When the request
  times out the status is \<open>unhealthy\<close> and the error message is \<open>Timeout\<close>; when it raises
  another exception the status is \<open>unhealthy\<close> and the error message is the text of the
  exception; when the response is not a 200 the status is \<open>unhealthy\<close> and the error
  message is \<open>HTTP\<close> followed by the decimal numeral of the status code. A 200 never
  gives an error message, and when the body of a 200 cannot be read (both
  \<open>response.json()\<close> and \<open>response.text()\<close> raise) the status is \<open>healthy\<close>.
\<close>

theorem C2_probe_failure_modes:
  assumes "is_target service"
  shows "\<exists>r. check_service_async self service env = Inr r \<and>
     (request env 0 = TimeoutError \<longrightarrow>
        status r = PyStr ''unhealthy'' \<and> error_message r = Some ''Timeout'') \<and>
     (\<forall>msg. request env 0 = Exception msg \<longrightarrow>
        status r = PyStr ''unhealthy'' \<and> error_message r = Some msg) \<and>
     (\<forall>resp. request env 0 = Response resp \<and> resp_status resp \<noteq> 200 \<longrightarrow>
        status r = PyStr ''unhealthy'' \<and>
        error_message r = Some (''HTTP '' @ str_int (resp_status resp)) \<and>
        (\<forall>ds. int_of_str ds = Some (resp_status resp) \<longleftrightarrow> ds = str_int (resp_status resp))) \<and>
     (\<forall>resp. request env 0 = Response resp \<and> resp_status resp = 200 \<longrightarrow>
        error_message r = None) \<and>
     (\<forall>resp. request env 0 = Response resp \<and> resp_status resp = 200 \<and>
        resp_json resp = None \<and> resp_text resp = None \<longrightarrow>
        status r = PyStr ''healthy'')"
proof -
  from assms obtain n u t where
    keys: "service ''name'' = Some n" "service ''url'' = Some u" "service ''type'' = Some t"
    by (rule is_targetE)
  from probe_fields [OF keys, of self env] obtain r where
    r: "check_service_async self service env = Inr r"
       "status r = fst (classify u t (request env 0))"
       "error_message r = snd (classify u t (request env 0))"
    by blast
  show ?thesis
    using r by (auto simp: classify_def int_of_str_iff json_status_def text_status_def)
qed

theorem C2_witness:
  "is_target prometheus \<and> is_target vllm_qwen \<and>
   (\<exists>r. check_service_async default_checker prometheus (env_of TimeoutError) = Inr r \<and>
        status r = PyStr ''unhealthy'' \<and> error_message r = Some ''Timeout'') \<and>
   (\<exists>r. check_service_async default_checker prometheus
           (env_of (Exception ''Connection refused'')) = Inr r \<and>
        status r = PyStr ''unhealthy'' \<and> error_message r = Some ''Connection refused'') \<and>
   (\<exists>r. check_service_async default_checker prometheus (env_of (http_error 500)) = Inr r \<and>
        status r = PyStr ''unhealthy'' \<and> error_message r = Some ''HTTP 500'') \<and>
   (\<exists>r. check_service_async default_checker prometheus (env_of (http_error 404)) = Inr r \<and>
        status r = PyStr ''unhealthy'' \<and> error_message r = Some ''HTTP 404'') \<and>
   int_of_str ''404'' = Some 404 \<and>
   (\<exists>r. check_service_async default_checker vllm_qwen (env_of (Response unreadable_200)) = Inr r \<and>
        status r = PyStr ''healthy'' \<and> error_message r = None)"
  using
    C2_probe_failure_modes [OF fixtures_are_targets(3), of default_checker "env_of TimeoutError"]
    C2_probe_failure_modes [OF fixtures_are_targets(3), of default_checker
      "env_of (Exception ''Connection refused'')"]
    C2_probe_failure_modes [OF fixtures_are_targets(3), of default_checker
      "env_of (http_error 500)"]
    C2_probe_failure_modes [OF fixtures_are_targets(3), of default_checker
      "env_of (http_error 404)"]
    C2_probe_failure_modes [OF fixtures_are_targets(2), of default_checker
      "env_of (Response unreadable_200)"]
  by (auto simp add: fixtures_are_targets env_of_def http_error_def str_int_examples
      fixture_responses)

lemma classify_model_200:
  assumes "resp_status resp = 200"
  shows "classify u ''model'' (Response resp) = (text_status (resp_text resp), None)"
  using assms by (simp add: classify_def)

lemma classify_api_health_200:
  assumes "resp_status resp = 200" "str_in ''health'' u"
  shows "classify u ''api'' (Response resp) = (json_status (resp_json resp), None)"
  using assms by (simp add: classify_def)

text \<open>
  Claim C5. For a target of type \<open>model\<close> answered by a 200: when the body, in lower
  case, contains neither \<open>healthy\<close> nor \<open>ok\<close> the status is \<open>degraded\<close>; when it
  contains one of them the status is \<open>healthy\<close>; when reading the body fails the status
  stays \<open>healthy\<close>.
\<close>

theorem C5_model_body_check:
  assumes "is_target service" and "service ''type'' = Some ''model''"
    and "request env 0 = Response resp" and "resp_status resp = 200"
  shows "\<exists>r. check_service_async self service env = Inr r \<and>
     (\<forall>body. resp_text resp = Some body \<longrightarrow>
        (\<not> str_in ''healthy'' (lower body) \<and> \<not> str_in ''ok'' (lower body) \<longrightarrow>
           status r = PyStr ''degraded'') \<and>
        (str_in ''healthy'' (lower body) \<or> str_in ''ok'' (lower body) \<longrightarrow>
           status r = PyStr ''healthy'')) \<and>
     (resp_text resp = None \<longrightarrow> status r = PyStr ''healthy'')"
proof -
  from assms(1) obtain n u t where
    keys: "service ''name'' = Some n" "service ''url'' = Some u" "service ''type'' = Some t"
    by (rule is_targetE)
  with assms(2) have t: "t = ''model''" by simp
  from probe_fields [OF keys, of self env] obtain r where
    r: "check_service_async self service env = Inr r"
       "status r = fst (classify u t (request env 0))"
    by blast
  have "status r = text_status (resp_text resp)"
    using r(2) t assms(3) classify_model_200 [OF assms(4)] by simp
  with r(1) show ?thesis
    by (auto simp: text_status_def)
qed

theorem C5_witness:
  "is_target vllm_qwen \<and> vllm_qwen ''type'' = Some ''model'' \<and>
   (\<exists>r. check_service_async default_checker vllm_qwen (env_of (ok_text ''Service OK'')) = Inr r \<and>
        status r = PyStr ''healthy'') \<and>
   (\<exists>r. check_service_async default_checker vllm_qwen (env_of (ok_text ''I am alive'')) = Inr r \<and>
        status r = PyStr ''degraded'') \<and>
   (\<exists>r. check_service_async default_checker vllm_qwen (env_of (ok_text kelvin_body)) = Inr r \<and>
        status r = PyStr ''healthy'') \<and>
   (\<exists>r. check_service_async default_checker vllm_qwen (env_of (Response unreadable_200)) = Inr r \<and>
        status r = PyStr ''healthy'')"
  using
    C5_model_body_check [OF fixtures_are_targets(2) vllm_qwen_keys(3),
      of "env_of (ok_text ''Service OK'')" "text_response ''Service OK''" default_checker]
    C5_model_body_check [OF fixtures_are_targets(2) vllm_qwen_keys(3),
      of "env_of (ok_text ''I am alive'')" "text_response ''I am alive''" default_checker]
    C5_model_body_check [OF fixtures_are_targets(2) vllm_qwen_keys(3),
      of "env_of (ok_text kelvin_body)" "text_response kelvin_body" default_checker]
    C5_model_body_check [OF fixtures_are_targets(2) vllm_qwen_keys(3),
      of "env_of (Response unreadable_200)" unreadable_200 default_checker]
  by (auto simp add: fixtures_are_targets vllm_qwen_keys env_of_def ok_text_def body_facts
      fixture_responses)

text \<open>
  Claim C10. For a target of type \<open>model\<close> answered by a 200 whose body, in lower case,
  contains \<open>unhealthy\<close>, the status is \<open>healthy\<close>: the test for \<open>healthy\<close> matches
  inside \<open>unhealthy\<close>.
\<close>

theorem C10_unhealthy_body_is_healthy:
  assumes "is_target service" and "service ''type'' = Some ''model''"
    and "request env 0 = Response resp" and "resp_status resp = 200"
    and "resp_text resp = Some body" and "str_in ''unhealthy'' (lower body)"
  shows "\<exists>r. check_service_async self service env = Inr r \<and> status r = PyStr ''healthy''"
proof -
  from assms(1) obtain n u t where
    keys: "service ''name'' = Some n" "service ''url'' = Some u" "service ''type'' = Some t"
    by (rule is_targetE)
  with assms(2) have t: "t = ''model''" by simp
  from probe_fields [OF keys, of self env] obtain r where
    r: "check_service_async self service env = Inr r"
       "status r = fst (classify u t (request env 0))"
    by blast
  have "status r = text_status (resp_text resp)"
    using r(2) t assms(3) classify_model_200 [OF assms(4)] by simp
  moreover have "str_in ''healthy'' (lower body)"
    using assms(6) by (rule str_in_unhealthy)
  ultimately have "status r = PyStr ''healthy''"
    using assms(5) by (simp add: text_status_def)
  with r(1) show ?thesis by blast
qed

theorem C10_witness:
  "is_target vllm_qwen \<and> vllm_qwen ''type'' = Some ''model'' \<and>
   str_in ''unhealthy'' (lower ''Model UNHEALTHY: out of memory'') \<and>
   (\<exists>r. check_service_async default_checker vllm_qwen
           (env_of (ok_text ''Model UNHEALTHY: out of memory'')) = Inr r \<and>
        status r = PyStr ''healthy'')"
  using
    C10_unhealthy_body_is_healthy [OF fixtures_are_targets(2) vllm_qwen_keys(3),
      of "env_of (ok_text ''Model UNHEALTHY: out of memory'')"
         "text_response ''Model UNHEALTHY: out of memory''"
         "''Model UNHEALTHY: out of memory''" default_checker]
  by (auto simp add: fixtures_are_targets vllm_qwen_keys env_of_def ok_text_def body_facts
      fixture_responses)

text \<open>
  An \<open>api\<close> service with \<open>health\<close> in its URL answers 200 with a body that is a JSON
  object with the status \<open>unhealthy\<close>, sent as \<open>text/plain\<close>: \<open>response.json()\<close> raises on
  the content type and the status of the result is \<open>healthy\<close>, not the field.
\<close>

theorem C6_counterexample:
  "resp_loads unhealthy_as_text = Some (PyDict [(''status'', PyStr ''unhealthy'')]) \<and>
   map_sum id status
     (check_service_async default_checker litellm (env_of (Response unhealthy_as_text))) =
     Inr (PyStr ''healthy'')"
  by (simp add: check_service_async_target [OF litellm_keys] env_of_def classify_def
      json_status_def litellm_url_health fixture_responses)
    (simp add: unhealthy_as_text_def)

text \<open>
  Claim C6, as amended. For a target of type \<open>api\<close> with \<open>health\<close> in its URL answered by a
  200: when \<open>response.json()\<close> returns an object with a \<open>status\<close> field, the value of the
  field is the status of the result, as it is; when it returns an object without the
  field, or a value that is not an object, or raises (the body is not JSON, or cannot be
  read, or the content type of the response is not JSON), the status is \<open>healthy\<close>.
\<close>

theorem C6_api_status_from_json_call:
  assumes "is_target service" and "service ''type'' = Some ''api''"
    and "service ''url'' = Some u" and "str_in ''health'' u"
    and "request env 0 = Response resp" and "resp_status resp = 200"
  shows "\<exists>r. check_service_async self service env = Inr r \<and>
     (\<forall>kv v. resp_json resp = Some (PyDict kv) \<and> map_of kv ''status'' = Some v \<longrightarrow>
        status r = v) \<and>
     (\<forall>kv. resp_json resp = Some (PyDict kv) \<and> map_of kv ''status'' = None \<longrightarrow>
        status r = PyStr ''healthy'') \<and>
     (\<forall>v. resp_json resp = Some v \<and> (\<forall>kv. v \<noteq> PyDict kv) \<longrightarrow>
        status r = PyStr ''healthy'') \<and>
     (resp_json resp = None \<longrightarrow> status r = PyStr ''healthy'') \<and>
     (\<not> resp_json_type resp \<or> resp_loads resp = None \<longrightarrow> status r = PyStr ''healthy'') \<and>
     (\<forall>kv v. resp_json_type resp \<and> resp_loads resp = Some (PyDict kv) \<and>
        map_of kv ''status'' = Some v \<longrightarrow> status r = v)"
proof -
  from assms(1) obtain n u' t where
    keys: "service ''name'' = Some n" "service ''url'' = Some u'" "service ''type'' = Some t"
    by (rule is_targetE)
  with assms(2,3) have t: "t = ''api''" and u: "u' = u" by simp_all
  from probe_fields [OF keys, of self env] obtain r where
    r: "check_service_async self service env = Inr r"
       "status r = fst (classify u' t (request env 0))"
    by blast
  have s: "status r = json_status (resp_json resp)"
    using r(2) t u assms(5) classify_api_health_200 [OF assms(6,4)] by simp
  have "status r = PyStr ''healthy''" if "resp_json resp = Some v" "\<forall>kv. v \<noteq> PyDict kv" for v
    using s that by (cases v) (simp_all add: json_status_def)
  moreover have "resp_json resp = None" if "\<not> resp_json_type resp \<or> resp_loads resp = None"
    using that by (auto simp: resp_json_def)
  moreover have "resp_json resp = Some (PyDict kv)"
    if "resp_json_type resp" "resp_loads resp = Some (PyDict kv)" for kv
    using that by (simp add: resp_json_def)
  ultimately show ?thesis
    using r(1) s by (auto simp: json_status_def)
qed

theorem C6_witness:
  \<open>is_target litellm \<and> litellm ''type'' = Some ''api'' \<and>
   str_in ''health'' ''http://localhost:4000/health/liveliness'' \<and>
   (\<exists>r. check_service_async default_checker litellm
           (env_of (ok_json [(''status'', PyStr ''ok'')] ''{"status":"ok"}'')) = Inr r \<and>
        status r = PyStr ''ok'') \<and>
   (\<exists>r. check_service_async default_checker litellm
           (env_of (ok_json [(''version'', PyInt 1)] ''{"version":1}'')) = Inr r \<and>
        status r = PyStr ''healthy'') \<and>
   (\<exists>r. check_service_async default_checker litellm (env_of (Response json_array)) = Inr r \<and>
        status r = PyStr ''healthy'') \<and>
   (\<exists>r. check_service_async default_checker litellm (env_of (ok_text ''<html>'')) = Inr r \<and>
        status r = PyStr ''healthy'') \<and>
   (\<exists>r. check_service_async default_checker litellm (env_of (Response unhealthy_as_text)) = Inr r \<and>
        status r = PyStr ''healthy'')\<close>
  using
    C6_api_status_from_json_call [OF fixtures_are_targets(1) litellm_keys(3) litellm_keys(2)
      litellm_url_health,
      of \<open>env_of (ok_json [(''status'', PyStr ''ok'')] ''{"status":"ok"}'')\<close>
         \<open>json_response [(''status'', PyStr ''ok'')] ''{"status":"ok"}''\<close> default_checker]
    C6_api_status_from_json_call [OF fixtures_are_targets(1) litellm_keys(3) litellm_keys(2)
      litellm_url_health,
      of \<open>env_of (ok_json [(''version'', PyInt 1)] ''{"version":1}'')\<close>
         \<open>json_response [(''version'', PyInt 1)] ''{"version":1}''\<close> default_checker]
    C6_api_status_from_json_call [OF fixtures_are_targets(1) litellm_keys(3) litellm_keys(2)
      litellm_url_health, of "env_of (Response json_array)" json_array default_checker]
    C6_api_status_from_json_call [OF fixtures_are_targets(1) litellm_keys(3) litellm_keys(2)
      litellm_url_health, of "env_of (ok_text ''<html>'')" "text_response ''<html>''"
      default_checker]
    C6_api_status_from_json_call [OF fixtures_are_targets(1) litellm_keys(3) litellm_keys(2)
      litellm_url_health, of "env_of (Response unhealthy_as_text)" unhealthy_as_text
      default_checker]
  by (auto simp add: fixtures_are_targets litellm_keys litellm_url_health env_of_def
      ok_text_def ok_json_def fixture_responses)

subsection \<open>The run, its report, retries and the response time\<close>

lemma run_health_checks_async_targets:
  assumes "\<forall>i<length services. is_target (services ! i)"
    and "{..<length services} \<subseteq> set order"
  shows "\<exists>cs. run_health_checks_async self services envs order = Some (Inr cs) \<and>
           length cs = length services \<and>
           (\<forall>i<length services.
              check_service_async self (services ! i) (envs i) = Inr (cs ! i))"
proof -
  let ?probe = "\<lambda>i. check_service_async self (services ! i) (envs i)"
  let ?cs = "map (\<lambda>i. projr (?probe i)) [0..<length services]"
  have ok: "?probe i = Inr (projr (?probe i))" if "i < length services" for i
  proof -
    from that assms(1) have "is_target (services ! i)" by simp
    then obtain n u t where
      "(services ! i) ''name'' = Some n" "(services ! i) ''url'' = Some u"
      "(services ! i) ''type'' = Some t"
      by (rule is_targetE)
    from probe_fields [OF this, of self "envs i"] show ?thesis by auto
  qed
  have tasks: "map ?probe [0..<length services] = map Inr ?cs"
    using ok by (intro nth_equalityI) simp_all
  have "gather (map Inr ?cs) order = Some (Inr ?cs)"
    using assms(2) by (intro gather_all_ok) simp
  then have "run_health_checks_async self services envs order = Some (Inr ?cs)"
    unfolding run_health_checks_async_def tasks .
  moreover have "length ?cs = length services"
    by simp
  moreover have "\<forall>i<length services. ?probe i = Inr (?cs ! i)"
    using ok by simp
  ultimately show ?thesis by blast
qed

lemma main_report_eq:
  assumes "run_health_checks_async self services envs order = Some (Inr cs)"
  shows "main_report self services envs order now t0 t1 =
           Some (Inr (generate_report now cs (t1 - t0)))"
  using assms by (simp add: main_report_def)

lemma checks_generate_report: "checks (generate_report now cs dur) = cs"
  by (simp add: generate_report_def Let_def)

lemma unknown_services_eq:
  "unknown_services (generate_report now cs dur) = count_status ''unknown'' cs"
  by (simp add: generate_report_def Let_def)

text \<open>
  Claim C3. For every list of targets and every order in which the probes complete, the
  run returns, the report holds one result for each target, and the result at position
  \<open>i\<close> is the result of the probe of the target at position \<open>i\<close>.
\<close>

theorem C3_one_result_per_target_in_order:
  assumes "\<forall>i<length services. is_target (services ! i)"
    and "{..<length services} \<subseteq> set order"
  shows "\<exists>rep. main_report self services envs order now t0 t1 = Some (Inr rep) \<and>
           run_health_checks_async self services envs order = Some (Inr (checks rep)) \<and>
           length (checks rep) = length services \<and>
           (\<forall>i<length services.
              check_service_async self (services ! i) (envs i) = Inr (checks rep ! i))"
proof -
  from run_health_checks_async_targets [OF assms, of self envs] obtain cs where
    cs: "run_health_checks_async self services envs order = Some (Inr cs)"
        "length cs = length services"
        "\<forall>i<length services. check_service_async self (services ! i) (envs i) = Inr (cs ! i)"
    by blast
  show ?thesis
    using cs main_report_eq [OF cs(1), of now t0 t1]
    by (intro exI [of _ "generate_report now cs (t1 - t0)"]) (simp add: checks_generate_report)
qed

lemma list_of_two:
  assumes "length xs = 2"
  shows "xs = [xs ! 0, xs ! 1]"
  using assms by (intro nth_equalityI) (auto simp: less_Suc_eq numeral_2_eq_2)

theorem C3_witness:
  "is_target litellm \<and> is_target vllm_qwen \<and>
   (\<exists>rep. main_report default_checker [litellm, vllm_qwen] envs_two [1, 0]
             ''2025-01-01T00:00:01'' 100 101 = Some (Inr rep) \<and>
          length (checks rep) = 2 \<and>
          map name (checks rep) = [''LiteLLM Proxy'', ''vLLM Qwen2.5-14B''])"
proof -
  have targets: "\<forall>i<length [litellm, vllm_qwen]. is_target ([litellm, vllm_qwen] ! i)"
    by (simp add: less_Suc_eq numeral_2_eq_2 fixtures_are_targets)
  have complete: "{..<length [litellm, vllm_qwen]} \<subseteq> set [1, 0]"
    by auto
  from C3_one_result_per_target_in_order [OF targets complete,
      of default_checker envs_two "''2025-01-01T00:00:01''" 100 101]
  obtain rep where
    rep: "main_report default_checker [litellm, vllm_qwen] envs_two [1, 0]
            ''2025-01-01T00:00:01'' 100 101 = Some (Inr rep)"
      and len: "length (checks rep) = 2"
      and nth: "\<forall>i<2. check_service_async default_checker ([litellm, vllm_qwen] ! i)
                  (envs_two i) = Inr (checks rep ! i)"
    by auto
  from nth have "check_service_async default_checker litellm (envs_two 0) = Inr (checks rep ! 0)"
    by (auto dest: spec [of _ 0])
  with probe_fields [OF litellm_keys, of default_checker "envs_two 0"]
  have n0: "name (checks rep ! 0) = ''LiteLLM Proxy''" by auto
  from nth have "check_service_async default_checker vllm_qwen (envs_two 1) = Inr (checks rep ! 1)"
    by (auto dest: spec [of _ 1])
  with probe_fields [OF vllm_qwen_keys, of default_checker "envs_two 1"]
  have n1: "name (checks rep ! 1) = ''vLLM Qwen2.5-14B''" by auto
  have "map name (checks rep) = [''LiteLLM Proxy'', ''vLLM Qwen2.5-14B'']"
    using list_of_two [OF len] n0 n1 by (metis list.simps(8,9))
  with rep len show ?thesis
    by (simp add: fixtures_are_targets)
qed

lemma litellm_unknown_status:
  "fst (classify ''http://localhost:4000/health/liveliness'' ''api'' (request env_unknown 0)) =
     PyStr ''unknown''"
  by (simp add: env_unknown_def env_of_def ok_json_def classify_def json_status_def
      fixture_responses
      litellm_url_health)

lemma litellm_unknown_probe:
  "\<exists>r. check_service_async default_checker litellm env_unknown = Inr r \<and>
        status r = PyStr ''unknown''"
  using probe_fields [OF litellm_keys, of default_checker env_unknown]
  by (auto simp: litellm_unknown_status)

text \<open>
  An \<open>api\<close> service whose JSON object reports the status \<open>unknown\<close>: the probe adopts
  it, and the report of the run counts one unknown service and is \<open>degraded\<close>.
\<close>

theorem C7_counterexample:
  "map_sum id status (check_service_async default_checker litellm env_unknown) =
     Inr (PyStr ''unknown'') \<and>
   map_option (map_sum id unknown_services)
     (main_report default_checker [litellm] (\<lambda>_. env_unknown) [0]
        ''2025-01-01T00:00:01'' 100 101) = Some (Inr 1) \<and>
   map_option (map_sum id overall_status)
     (main_report default_checker [litellm] (\<lambda>_. env_unknown) [0]
        ''2025-01-01T00:00:01'' 100 101) = Some (Inr ''degraded'')"
proof -
  from litellm_unknown_probe obtain r where
    r: "check_service_async default_checker litellm env_unknown = Inr r"
       "status r = PyStr ''unknown''"
    by blast
  have "gather [Inr r :: error + ServiceCheck] [0] = Some (Inr [r])"
    by (simp add: gather_def)
  then have run: "run_health_checks_async default_checker [litellm] (\<lambda>_. env_unknown) [0] =
      Some (Inr [r])"
    by (simp add: run_health_checks_async_def r(1))
  show ?thesis
    using r by (simp add: main_report_eq [OF run] generate_report_def Let_def count_status_def)
qed


lemma probe_unknown_iff:
  assumes "is_target service"
  shows "\<exists>r. check_service_async self service env = Inr r \<and>
           (status r = PyStr ''unknown'' \<longleftrightarrow> reports_unknown service env)"
proof -
  from assms obtain n u t where
    keys: "service ''name'' = Some n" "service ''url'' = Some u" "service ''type'' = Some t"
    by (rule is_targetE)
  from probe_fields [OF keys, of self env] status_unknown_iff [OF keys, of env]
  show ?thesis by auto
qed

lemma count_status_zero:
  assumes "\<forall>c\<in>set cs. status c \<noteq> PyStr s"
  shows "count_status s cs = 0"
  using assms by (simp add: count_status_length filter_empty_conv)

text \<open>
  Claim C7, as amended. The result of a probe has the status \<open>unknown\<close> exactly when the
  target is of type \<open>api\<close> with \<open>health\<close> in its URL, the response is a 200 and the
  \<open>status\<close> field of its JSON object is the string \<open>unknown\<close>. For a run in which no
  probe meets such a response, the report counts no unknown service and its overall
  status is not \<open>degraded\<close>.
\<close>

theorem C7_unknown_only_from_json_status:
  "(is_target service \<longrightarrow>
      (\<exists>r. check_service_async self service env = Inr r \<and>
           (status r = PyStr ''unknown'' \<longleftrightarrow> reports_unknown service env))) \<and>
   ((\<forall>i<length services.
        is_target (services ! i) \<and> \<not> reports_unknown (services ! i) (envs i)) \<and>
    {..<length services} \<subseteq> set order \<longrightarrow>
      (\<exists>rep. main_report self services envs order now t0 t1 = Some (Inr rep) \<and>
             unknown_services rep = 0 \<and> overall_status rep \<noteq> ''degraded''))"
proof (intro conjI impI)
  assume "is_target service"
  then show "\<exists>r. check_service_async self service env = Inr r \<and>
           (status r = PyStr ''unknown'' \<longleftrightarrow> reports_unknown service env)"
    by (rule probe_unknown_iff)
next
  assume a: "(\<forall>i<length services.
        is_target (services ! i) \<and> \<not> reports_unknown (services ! i) (envs i)) \<and>
    {..<length services} \<subseteq> set order"
  then have targets: "\<forall>i<length services. is_target (services ! i)"
    and complete: "{..<length services} \<subseteq> set order"
    by simp_all
  from run_health_checks_async_targets [OF targets complete, of self envs] obtain cs where
    cs: "run_health_checks_async self services envs order = Some (Inr cs)"
        "length cs = length services"
        "\<forall>i<length services. check_service_async self (services ! i) (envs i) = Inr (cs ! i)"
    by blast
  have "status c \<noteq> PyStr ''unknown''" if "c \<in> set cs" for c
  proof -
    from that cs(2) obtain i where i: "i < length services" "c = cs ! i"
      by (auto simp: in_set_conv_nth)
    with a have t: "is_target (services ! i)" and n: "\<not> reports_unknown (services ! i) (envs i)"
      by simp_all
    from probe_unknown_iff [OF t, of self "envs i"] cs(3) i n show ?thesis
      by auto
  qed
  then have none: "\<forall>c\<in>set cs. status c \<noteq> PyStr ''unknown''"
    by blast
  have "unknown_services (generate_report now cs (t1 - t0)) = 0"
    using count_status_zero [OF none] by (simp add: unknown_services_eq)
  moreover have "overall_status (generate_report now cs (t1 - t0)) \<noteq> ''degraded''"
    using none unfolding overall_status_eq by simp
  ultimately show "\<exists>rep. main_report self services envs order now t0 t1 = Some (Inr rep) \<and>
             unknown_services rep = 0 \<and> overall_status rep \<noteq> ''degraded''"
    using main_report_eq [OF cs(1), of now t0 t1] by simp
qed

lemma envs_two_not_unknown:
  "\<not> reports_unknown litellm (envs_two 0)" "\<not> reports_unknown vllm_qwen (envs_two 1)"
  by (simp_all add: reports_unknown_def envs_two_def env_of_def ok_json_def ok_text_def
      fixture_responses
      litellm_keys vllm_qwen_keys)

lemma env_unknown_reports_unknown: "reports_unknown litellm env_unknown"
  by (simp add: reports_unknown_def env_unknown_def env_of_def ok_json_def litellm_keys
      fixture_responses
      litellm_url_health)

theorem C7_witness:
  "is_target litellm \<and> reports_unknown litellm env_unknown \<and>
   (\<exists>r. check_service_async default_checker litellm env_unknown = Inr r \<and>
        status r = PyStr ''unknown'') \<and>
   is_target vllm_qwen \<and>
   \<not> reports_unknown litellm (envs_two 0) \<and> \<not> reports_unknown vllm_qwen (envs_two 1) \<and>
   (\<exists>rep. main_report default_checker [litellm, vllm_qwen] envs_two [1, 0]
             ''2025-01-01T00:00:01'' 100 101 = Some (Inr rep) \<and>
          unknown_services rep = 0 \<and> overall_status rep \<noteq> ''degraded'')"
proof -
  have run: "(\<forall>i<length [litellm, vllm_qwen].
        is_target ([litellm, vllm_qwen] ! i) \<and>
        \<not> reports_unknown ([litellm, vllm_qwen] ! i) (envs_two i)) \<and>
      {..<length [litellm, vllm_qwen]} \<subseteq> set [1, 0]"
    using envs_two_not_unknown
    by (auto simp: less_Suc_eq numeral_2_eq_2 fixtures_are_targets)
  note c7 = C7_unknown_only_from_json_status [of litellm default_checker env_unknown
      "[litellm, vllm_qwen]" envs_two "[1, 0]" "''2025-01-01T00:00:01''" 100 101]
  from c7 fixtures_are_targets(1) env_unknown_reports_unknown
  have probe: "\<exists>r. check_service_async default_checker litellm env_unknown = Inr r \<and>
        status r = PyStr ''unknown''"
    by blast
  from c7 run
  have report: "\<exists>rep. main_report default_checker [litellm, vllm_qwen] envs_two [1, 0]
             ''2025-01-01T00:00:01'' 100 101 = Some (Inr rep) \<and>
          unknown_services rep = 0 \<and> overall_status rep \<noteq> ''degraded''"
    by blast
  from probe report fixtures_are_targets(1,2) env_unknown_reports_unknown envs_two_not_unknown
  show ?thesis by blast
qed

lemma probe_reads_first_request_only:
  assumes "request env 0 = request env' 0"
    and "clock_start env = clock_start env'" and "clock_end env = clock_end env'"
    and "created env = created env'"
  shows "check_service_async self service env = check_service_async self' service env'"
  unfolding check_service_async_def assms ..

lemma py_round_250: "py_round (((100.25::real) - 100) * 1000) 2 = 250"
  by (simp add: py_round_def round_half_even_def)

text \<open>
  Claim C4. A checker built with three retries probes a server that answers 500 to the
  first request and 200 from the second on: the result is \<open>unhealthy\<close> with the message
  \<open>HTTP 500\<close>, as with no retry at all; the later answers of the server are never read.
\<close>

theorem C4_async_probe_does_not_retry:
  "max_retries default_checker = 3 \<and>
   request env_500_then_ok 1 = ok_text ''OK'' \<and>
   map_sum id status (check_service_async default_checker prometheus env_500_then_ok) =
     Inr (PyStr ''unhealthy'') \<and>
   map_sum id error_message (check_service_async default_checker prometheus env_500_then_ok) =
     Inr (Some ''HTTP 500'') \<and>
   check_service_async default_checker prometheus env_500_then_ok =
     check_service_async (default_checker\<lparr>max_retries := 0\<rparr>) prometheus
       (env_of (http_error 500))"
  by (simp add: check_service_async_target [OF prometheus_keys] env_500_then_ok_def
      env_of_def default_checker_def classify_def http_error_def str_int_examples
      fixture_responses)

text \<open>
  Claim C9. When the two clock readings of a probe are equal, the elapsed time is zero and
  the result carries no response time, although the clock was read; with different
  readings the response time is the elapsed time in milliseconds, rounded to two digits.
\<close>

theorem C9_latency_absent_at_zero_elapsed:
  "clock_end env_zero_elapsed - clock_start env_zero_elapsed = 0 \<and>
   map_sum id response_time (check_service_async default_checker prometheus env_zero_elapsed) =
     Inr None \<and>
   map_sum id status (check_service_async default_checker prometheus env_zero_elapsed) =
     Inr (PyStr ''unhealthy'') \<and>
   map_sum id response_time
     (check_service_async default_checker prometheus (env_of (Exception ''Connection refused''))) =
     Inr (Some 250)"
  using py_round_250
  by (simp add: check_service_async_target [OF prometheus_keys] env_zero_elapsed_def
      env_of_def classify_def)

end
